theory Spec2Isabelle
  imports Complex_Main "HOL-Library.List_Lexorder"
begin

section \<open>Python values used by \<open>molecule_pred/utils.py\<close>\<close>

text \<open>
  A Python \<open>str\<close> is a sequence of Unicode code points; a code point is a natural
  number here, and a string the list of its code points. Python compares strings
  lexicographically by code point, which is the order \<open>HOL-Library.List_Lexorder\<close>
  puts on lists. Python has no character type: iterating over a string, or indexing
  it, yields strings of length one.
\<close>

type_synonym pystr = "nat list"

datatype py_error = ValueError | IndexError

text \<open>Iterating over a string: its characters, each a string of length one.\<close>

definition str_iter :: "pystr \<Rightarrow> pystr list" where
  "str_iter s = map (\<lambda>c. [c]) s"

text \<open>\<open>''.join(xs)\<close> for a list of strings.\<close>

definition str_join :: "pystr list \<Rightarrow> pystr" where
  "str_join xs = concat xs"

text \<open>The literals \<open>'NULL'\<close> and \<open>'PAD'\<close>.\<close>

definition NULL_token :: pystr where
  "NULL_token = map of_char ''NULL''"

definition PAD_token :: pystr where
  "PAD_token = map of_char ''PAD''"

text \<open>
  \<open>xs.index(x)\<close>: the first position whose element equals \<open>x\<close>. Python raises
  \<open>ValueError\<close> when there is none; that outcome is \<open>None\<close>.
\<close>

fun list_index :: "'a list \<Rightarrow> 'a \<Rightarrow> nat option" where
  "list_index [] x = None"
| "list_index (y # ys) x =
     (if y = x then Some 0
      else (case list_index ys x of None \<Rightarrow> None | Some k \<Rightarrow> Some (Suc k)))"

text \<open>
  \<open>xs[i] = v\<close> on a Python list, for an index that is not negative: \<open>IndexError\<close>
  when \<open>i\<close> is not below the length.
\<close>

definition list_setitem :: "'a list \<Rightarrow> nat \<Rightarrow> 'a \<Rightarrow> py_error + 'a list" where
  "list_setitem xs i v = (if i < length xs then Inr (xs[i := v]) else Inl IndexError)"

text \<open>\<open>range(n)\<close>: empty when \<open>n\<close> is not positive.\<close>

definition py_range :: "int \<Rightarrow> nat list" where
  "py_range n = [0..<nat n]"

section \<open>The numpy arrays the encoder builds\<close>

text \<open>
  An array has an element type, a shape and its elements, nested along the axes. The
  only values ever stored are 0 and 1, which a 64-bit float holds exactly, and no
  arithmetic is done on them, so an element is a real number.
\<close>

datatype np_dtype = np_int8 | np_int64 | np_float64

datatype nd = Scalar real | Axis "nd list"

record ndarray =
  dtype :: np_dtype
  shape :: "nat list"
  elems :: nd

fun nd_full :: "nat list \<Rightarrow> real \<Rightarrow> nd" where
  "nd_full [] v = Scalar v"
| "nd_full (n # ns) v = Axis (replicate n (nd_full ns v))"

text \<open>
  numpy holds a dimension and the size of an array in bytes in a signed 64-bit integer,
  whose largest value is \<open>NPY_MAX_INTP\<close>. For the size it multiplies the size of one
  element, 8 bytes for \<open>float64\<close>, by the dimensions that are not zero, and refuses
  the array when the product overflows.
\<close>

definition NPY_MAX_INTP :: int where
  "NPY_MAX_INTP = 2 ^ 63 - 1"

definition np_nbytes :: "int list \<Rightarrow> int" where
  "np_nbytes shp = 8 * prod_list (filter (\<lambda>d. d \<noteq> 0) shp)"

definition bad_shape :: "int list \<Rightarrow> bool" where
  "bad_shape shp =
     (list_ex (\<lambda>d. d < 0 \<or> NPY_MAX_INTP < d) shp \<or> NPY_MAX_INTP < np_nbytes shp)"

text \<open>
  \<open>np.zeros(shape=...)\<close>: the element type defaults to \<open>float64\<close>. A negative
  dimension, a dimension that does not fit a signed 64-bit integer and a size in bytes
  that does not fit one each raise \<open>ValueError\<close>. Whether memory for an array
  within these limits can be had depends on the machine; the model has no bound on
  memory, and \<open>MemoryError\<close> is not among its outcomes.
\<close>

definition np_zeros :: "int list \<Rightarrow> py_error + ndarray" where
  "np_zeros shp =
     (if bad_shape shp then Inl ValueError
      else Inr \<lparr>dtype = np_float64, shape = map nat shp, elems = nd_full (map nat shp) 0\<rparr>)"

text \<open>
  \<open>a[i, :] = col\<close> for a two-dimensional array and a Python list of integers: the row
  index is checked, the integers are converted to the array's element type, and a list
  of the wrong length raises \<open>ValueError\<close> unless it has one element, which is
  broadcast along the row.
\<close>

fun set_row :: "nat list \<Rightarrow> nd \<Rightarrow> nat \<Rightarrow> int list \<Rightarrow> py_error + nd" where
  "set_row [r, c] (Axis rows) i col =
     (if \<not> i < r then Inl IndexError
      else if length col = c then Inr (Axis (rows[i := Axis (map (\<lambda>v. Scalar (of_int v)) col)]))
      else if length col = 1 then Inr (Axis (rows[i := Axis (replicate c (Scalar (of_int (hd col))))]))
      else Inl ValueError)"
| "set_row shp e i col = Inl IndexError"

definition np_set_row :: "ndarray \<Rightarrow> nat \<Rightarrow> int list \<Rightarrow> py_error + ndarray" where
  "np_set_row a i col =
     (case set_row (shape a) (elems a) i col of
        Inl e \<Rightarrow> Inl e
      | Inr x \<Rightarrow> Inr (a\<lparr>elems := x\<rparr>))"

text \<open>
  Type promotion among the three element types: the wider one.
\<close>

fun dtype_rank :: "np_dtype \<Rightarrow> nat" where
  "dtype_rank np_int8 = 0"
| "dtype_rank np_int64 = 1"
| "dtype_rank np_float64 = 2"

definition promote :: "np_dtype \<Rightarrow> np_dtype \<Rightarrow> np_dtype" where
  "promote a b = (if dtype_rank a \<le> dtype_rank b then b else a)"

text \<open>
  \<open>np.array(xs)\<close> for a Python list of arrays. The empty list gives the empty
  one-dimensional \<open>float64\<close> array, of shape \<open>(0,)\<close>. Arrays of one common shape are
  stacked along a new first axis. Arrays of different shapes raise \<open>ValueError\<close>.
\<close>

definition np_array :: "ndarray list \<Rightarrow> py_error + ndarray" where
  "np_array xs =
     (case xs of
        [] \<Rightarrow> Inr \<lparr>dtype = np_float64, shape = [0], elems = Axis []\<rparr>
      | a # as \<Rightarrow>
          if list_all (\<lambda>b. shape b = shape a) as
          then Inr \<lparr>dtype = foldr promote (map dtype as) (dtype a),
                    shape = length xs # shape a,
                    elems = Axis (map elems xs)\<rparr>
          else Inl ValueError)"

text \<open>Reading the result: \<open>a[j]\<close>, \<open>a[j][i]\<close>, and the elements in row-major order.\<close>

fun getitem :: "nat list \<Rightarrow> nd \<Rightarrow> nat \<Rightarrow> py_error + (nat list \<times> nd)" where
  "getitem (n # ns) (Axis xs) j = (if j < n \<and> j < length xs then Inr (ns, xs ! j) else Inl IndexError)"
| "getitem shp e j = Inl IndexError"

definition np_getitem :: "ndarray \<Rightarrow> nat \<Rightarrow> py_error + ndarray" where
  "np_getitem a j =
     (case getitem (shape a) (elems a) j of
        Inl e \<Rightarrow> Inl e
      | Inr (ns, x) \<Rightarrow> Inr \<lparr>dtype = dtype a, shape = ns, elems = x\<rparr>)"

definition np_getitem2 :: "ndarray \<Rightarrow> nat \<Rightarrow> nat \<Rightarrow> py_error + ndarray" where
  "np_getitem2 a j i = (case np_getitem a j of Inl e \<Rightarrow> Inl e | Inr b \<Rightarrow> np_getitem b i)"

fun nd_ravel :: "nd \<Rightarrow> real list" where
  "nd_ravel (Scalar v) = [v]"
| "nd_ravel (Axis xs) = concat (map nd_ravel xs)"

definition np_ravel :: "ndarray \<Rightarrow> real list" where
  "np_ravel a = nd_ravel (elems a)"

definition is_integer_dtype :: "np_dtype \<Rightarrow> bool" where
  "is_integer_dtype d = (d = np_int8 \<or> d = np_int64)"

section \<open>\<open>generate_charset\<close>\<close>

text \<open>
  \<^verbatim>\<open>
  unique_chars = set(''.join(full_char_list))
  charset = ['NULL', 'PAD'] + sorted(unique_chars)
  return charset
  \<close>
\<close>

definition generate_charset :: "pystr list \<Rightarrow> pystr list" where
  "generate_charset full_char_list =
     (let unique_chars = set (str_iter (str_join full_char_list));
          charset = [NULL_token, PAD_token] @ sorted_list_of_set unique_chars
      in charset)"

section \<open>\<open>smiles_to_onehots\<close>\<close>

text \<open>
  The index \<open>ind\<close> that the body of the inner loop chooses at position \<open>i\<close>:
  \<^verbatim>\<open>
  if i < len(smiles_string):
      try:
          ind = unique_charset.index(smiles_string[i])
      except ValueError:
          ind = 0
  else:
      ind = 1
  \<close>
\<close>

definition onehot_ind :: "pystr list \<Rightarrow> pystr \<Rightarrow> nat \<Rightarrow> nat" where
  "onehot_ind unique_charset smiles_string i =
     (if i < length smiles_string then
        (case list_index unique_charset [smiles_string ! i] of
           Some k \<Rightarrow> k
         | None \<Rightarrow> 0)
      else 1)"

text \<open>
  The inner loop, over the positions still to visit, with the array under construction
  passed along:
  \<^verbatim>\<open>
  one_hot_col = [0]*charset_length
  ...
  one_hot_col[ind] = 1
  one_hot_smiles[i,:] = one_hot_col
  \<close>
\<close>

fun fill_rows :: "pystr list \<Rightarrow> pystr \<Rightarrow> nat list \<Rightarrow> ndarray \<Rightarrow> py_error + ndarray" where
  "fill_rows unique_charset smiles_string [] one_hot_smiles = Inr one_hot_smiles"
| "fill_rows unique_charset smiles_string (i # rest) one_hot_smiles =
     (case list_setitem (replicate (length unique_charset) 0)
             (onehot_ind unique_charset smiles_string i) 1 of
        Inl e \<Rightarrow> Inl e
      | Inr one_hot_col \<Rightarrow>
          (case np_set_row one_hot_smiles i one_hot_col of
             Inl e \<Rightarrow> Inl e
           | Inr a \<Rightarrow> fill_rows unique_charset smiles_string rest a))"

text \<open>One pass of the outer loop's body: the matrix of one string.\<close>

definition encode_string :: "pystr list \<Rightarrow> int \<Rightarrow> pystr \<Rightarrow> py_error + ndarray" where
  "encode_string unique_charset max_smiles_chars smiles_string =
     (case np_zeros [max_smiles_chars, int (length unique_charset)] of
        Inl e \<Rightarrow> Inl e
      | Inr one_hot_smiles \<Rightarrow>
          fill_rows unique_charset smiles_string (py_range max_smiles_chars) one_hot_smiles)"

text \<open>The outer loop, appending to \<open>one_hots\<close>; the first error ends it.\<close>

fun encode_all :: "pystr list \<Rightarrow> int \<Rightarrow> pystr list \<Rightarrow> ndarray list \<Rightarrow> py_error + ndarray list" where
  "encode_all unique_charset max_smiles_chars [] one_hots = Inr one_hots"
| "encode_all unique_charset max_smiles_chars (smiles_string # rest) one_hots =
     (case encode_string unique_charset max_smiles_chars smiles_string of
        Inl e \<Rightarrow> Inl e
      | Inr one_hot_smiles \<Rightarrow>
          encode_all unique_charset max_smiles_chars rest (one_hots @ [one_hot_smiles]))"

definition smiles_to_onehots :: "pystr list \<Rightarrow> pystr list \<Rightarrow> int \<Rightarrow> py_error + ndarray" where
  "smiles_to_onehots smiles_strings unique_charset max_smiles_chars =
     (case encode_all unique_charset max_smiles_chars smiles_strings [] of
        Inl e \<Rightarrow> Inl e
      | Inr one_hots \<Rightarrow> np_array one_hots)"

section \<open>The result in closed form\<close>

text \<open>
  What the loops compute, written without them: the row written at one position, the
  matrix of one string, and the condition under which every indexed write of the
  positions \<open>ps\<close> stays inside the column.
\<close>

definition onehot_row :: "pystr list \<Rightarrow> pystr \<Rightarrow> nat \<Rightarrow> nd" where
  "onehot_row cs s i =
     Axis (map (\<lambda>v. Scalar (of_int v)) ((replicate (length cs) 0)[onehot_ind cs s i := 1]))"

definition fits :: "pystr list \<Rightarrow> pystr \<Rightarrow> nat list \<Rightarrow> bool" where
  "fits cs s ps = list_all (\<lambda>i. onehot_ind cs s i < length cs) ps"

definition onehot_matrix :: "pystr list \<Rightarrow> int \<Rightarrow> pystr \<Rightarrow> ndarray" where
  "onehot_matrix cs m s =
     \<lparr>dtype = np_float64, shape = [nat m, length cs],
      elems = Axis (map (onehot_row cs s) (py_range m))\<rparr>"

section \<open>The vocabulary\<close>

text \<open>
  Sorting the set of one-character strings by Python's string order is sorting the
  characters by code point.
\<close>

lemma sorted_singletons:
  "sorted_list_of_set (set (str_iter s)) = map (\<lambda>c. [c]) (sorted_list_of_set (set s))"
proof -
  let ?l = "map (\<lambda>c. [c]) (sorted_list_of_set (set s))"
  have inj: "inj_on (\<lambda>c::nat. [c]) (set s)"
    by (simp add: inj_on_def)
  have st: "set (str_iter s) = (\<lambda>c. [c]) ` set s"
    by (simp add: str_iter_def)
  have 1: "sorted_wrt (<) ?l"
    by (simp add: sorted_wrt_map)
  have 2: "set ?l = set (str_iter s)"
    by (simp add: st)
  have 3: "length ?l = card (set (str_iter s))"
    by (simp add: st card_image [OF inj])
  show ?thesis
    using sorted_list_of_set_unique [of "set (str_iter s)" ?l] 1 2 3 by simp
qed

lemma generate_charset_eq:
  "generate_charset corpus =
     NULL_token # PAD_token # map (\<lambda>c. [c]) (sorted_list_of_set (set (concat corpus)))"
  by (simp add: generate_charset_def str_join_def sorted_singletons)

lemma reserved_not_single:
  "NULL_token \<noteq> [c]" "PAD_token \<noteq> [c]" "NULL_token \<noteq> PAD_token"
  by (simp_all add: NULL_token_def PAD_token_def)

text \<open>
  C1. For every corpus, the vocabulary of \<open>generate_charset\<close> has \<open>'NULL'\<close> at index
  0 and \<open>'PAD'\<close> at index 1; from index 2 on it is the distinct characters of the
  corpus, each as a one-character string, in strictly ascending code-point order; it
  has no duplicate entry; its length is 2 plus the number of distinct characters; and
  the empty corpus gives \<open>['NULL', 'PAD']\<close>.
\<close>

theorem generate_charset_contents:
  "generate_charset corpus ! 0 = NULL_token \<and>
   generate_charset corpus ! 1 = PAD_token \<and>
   (\<exists>cs. drop 2 (generate_charset corpus) = map (\<lambda>c. [c]) cs \<and>
         sorted_wrt (<) cs \<and> set cs = set (concat corpus)) \<and>
   distinct (generate_charset corpus) \<and>
   length (generate_charset corpus) = 2 + card (set (concat corpus)) \<and>
   generate_charset [] = [NULL_token, PAD_token]"
proof -
  let ?cs = "sorted_list_of_set (set (concat corpus))"
  have eq: "generate_charset corpus = NULL_token # PAD_token # map (\<lambda>c. [c]) ?cs"
    by (rule generate_charset_eq)
  have a: "generate_charset corpus ! 0 = NULL_token" "generate_charset corpus ! 1 = PAD_token"
    by (simp_all add: eq)
  have b: "drop 2 (generate_charset corpus) = map (\<lambda>c. [c]) ?cs \<and>
         sorted_wrt (<) ?cs \<and> set ?cs = set (concat corpus)"
    by (simp add: eq)
  have c: "distinct (generate_charset corpus)"
    by (auto simp add: eq distinct_map inj_on_def reserved_not_single)
  have d: "length (generate_charset corpus) = 2 + card (set (concat corpus))"
    by (simp add: eq)
  have e: "generate_charset [] = [NULL_token, PAD_token]"
    by (simp add: generate_charset_eq)
  from a b c d e show ?thesis by blast
qed

text \<open>
  C6. Two corpora with the same set of characters, such as a corpus and a reordering
  or duplication of it, give the same vocabulary, position for position.
\<close>

theorem generate_charset_same_chars:
  "set (concat corpus1) = set (concat corpus2) \<Longrightarrow>
   generate_charset corpus1 = generate_charset corpus2"
  by (simp add: generate_charset_def str_join_def str_iter_def)

theorem generate_charset_same_chars_witness:
  "set (concat [map of_char ''CC1'', map of_char ''C'']) =
     set (concat [map of_char ''1'', map of_char ''C1C'', map of_char ''1'' :: pystr]) \<and>
   generate_charset [map of_char ''CC1'', map of_char ''C''] =
     generate_charset [map of_char ''1'', map of_char ''C1C'', map of_char ''1''] \<and>
   generate_charset [map of_char ''CC1'', map of_char ''C''] =
     [NULL_token, PAD_token, map of_char ''1'', map of_char ''C'']"
proof -
  have h: "set (concat [map of_char ''CC1'', map of_char ''C'']) =
     set (concat [map of_char ''1'', map of_char ''C1C'', map of_char ''1'' :: pystr])"
    by auto
  have v: "generate_charset [map of_char ''CC1'', map of_char ''C''] =
     [NULL_token, PAD_token, map of_char ''1'', map of_char ''C'']"
    by code_simp
  from h generate_charset_same_chars [OF h] v show ?thesis
    by blast
qed

section \<open>The encoder\<close>

text \<open>
  In the examples below the code points 49, 67 and 88 are the characters \<open>1\<close>,
  \<open>C\<close> and \<open>X\<close>.
\<close>

lemma list_index_None: "list_index xs x = None \<longleftrightarrow> x \<notin> set xs"
  by (induction xs) (auto split: option.splits)

lemma list_index_Some:
  "list_index xs x = Some k \<Longrightarrow> k < length xs \<and> xs ! k = x \<and> (\<forall>k'<k. xs ! k' \<noteq> x)"
proof (induction xs arbitrary: k)
  case Nil
  then show ?case by simp
next
  case (Cons y ys)
  show ?case
  proof (cases "y = x")
    case True
    with Cons.prems show ?thesis by simp
  next
    case False
    with Cons.prems obtain m where m: "list_index ys x = Some m" "k = Suc m"
      by (auto split: option.splits)
    from Cons.IH [OF m(1)] False m(2) show ?thesis
      by (auto simp: nth_Cons split: nat.splits)
  qed
qed


lemma fold_update_length:
  "length (fold (\<lambda>i rows. rows[i := f i]) ps rows) = length rows"
  by (induction ps arbitrary: rows) auto

lemma fold_update_nth:
  "k < length rows \<Longrightarrow>
   fold (\<lambda>i rows. rows[i := f i]) ps rows ! k = (if k \<in> set ps then f k else rows ! k)"
  by (induction ps arbitrary: rows) (auto simp: nth_list_update)

lemma fold_update_upt:
  "length rows = m \<Longrightarrow> fold (\<lambda>i rows. rows[i := f i]) [0..<m] rows = map f [0..<m]"
  by (rule nth_equalityI) (simp_all add: fold_update_length fold_update_nth)

lemma fill_rows_char:
  "shape a = [r, length cs] \<Longrightarrow> elems a = Axis rows \<Longrightarrow> list_all (\<lambda>i. i < r) ps \<Longrightarrow>
   fill_rows cs s ps a =
     (if fits cs s ps
      then Inr (a\<lparr>elems := Axis (fold (\<lambda>i rows. rows[i := onehot_row cs s i]) ps rows)\<rparr>)
      else Inl IndexError)"
proof (induction ps arbitrary: a rows)
  case Nil
  then show ?case by (simp add: fits_def)
next
  case (Cons i ps)
  show ?case
  proof (cases "onehot_ind cs s i < length cs")
    case False
    then show ?thesis by (simp add: fits_def list_setitem_def)
  next
    case True
    let ?a = "a\<lparr>elems := Axis (rows[i := onehot_row cs s i])\<rparr>"
    from Cons.prems have ir: "i < r" by simp
    have step: "np_set_row a i ((replicate (length cs) 0)[onehot_ind cs s i := 1]) = Inr ?a"
      using Cons.prems(1,2) ir by (simp add: np_set_row_def onehot_row_def)
    have ih: "fill_rows cs s ps ?a =
      (if fits cs s ps
       then Inr (?a\<lparr>elems := Axis (fold (\<lambda>i rows. rows[i := onehot_row cs s i]) ps (rows[i := onehot_row cs s i]))\<rparr>)
       else Inl IndexError)"
      using Cons.prems by (intro Cons.IH) simp_all
    show ?thesis
      using True step ih by (simp add: list_setitem_def fits_def)
  qed
qed

lemma bad_shape_negative: "m < 0 \<Longrightarrow> bad_shape [m, l]"
  by (simp add: bad_shape_def)

lemma good_shape_nonneg: "\<not> bad_shape [m, l] \<Longrightarrow> 0 \<le> m"
  by (cases "m < 0") (simp_all add: bad_shape_negative)

text \<open>
  For dimensions that are not negative, the limit is on 8 times the product, a zero
  dimension counting as 1.
\<close>

lemma bad_shape_matrix:
  assumes "0 \<le> m" "0 \<le> l"
  shows "bad_shape [m, l] \<longleftrightarrow> 2 ^ 63 \<le> 8 * max 1 m * max 1 l"
proof -
  define P where "P = 8 * max 1 m * max 1 l"
  have n: "np_nbytes [m, l] = P"
    using assms by (auto simp add: np_nbytes_def max_def P_def)
  have "m * 1 \<le> (8 * max 1 m) * max 1 l"
    using assms by (intro mult_mono) auto
  then have a: "m \<le> P"
    by (simp add: P_def)
  have "1 * l \<le> (8 * max 1 m) * max 1 l"
    using assms by (intro mult_mono) auto
  then have b: "l \<le> P"
    by (simp add: P_def)
  have e: "bad_shape [m, l] \<longleftrightarrow>
           (m < 0 \<or> NPY_MAX_INTP < m \<or> l < 0 \<or> NPY_MAX_INTP < l) \<or> NPY_MAX_INTP < P"
    by (simp add: bad_shape_def n)
  have "bad_shape [m, l] \<longleftrightarrow> 2 ^ 63 \<le> P"
    unfolding e NPY_MAX_INTP_def using a b assms by auto
  then show ?thesis
    by (simp add: P_def)
qed

lemma encode_string_char:
  "encode_string cs m s =
     (if bad_shape [m, int (length cs)] then Inl ValueError
      else if fits cs s (py_range m) then Inr (onehot_matrix cs m s)
      else Inl IndexError)"
proof (cases "bad_shape [m, int (length cs)]")
  case True
  then show ?thesis by (simp add: encode_string_def np_zeros_def)
next
  case False
  let ?z = "\<lparr>dtype = np_float64, shape = [nat m, length cs],
             elems = Axis (replicate (nat m) (Axis (replicate (length cs) (Scalar 0))))\<rparr>"
  have z: "np_zeros [m, int (length cs)] = Inr ?z"
    using False by (simp add: np_zeros_def)
  have f: "fill_rows cs s (py_range m) ?z =
     (if fits cs s (py_range m)
      then Inr (?z\<lparr>elems := Axis (fold (\<lambda>i rows. rows[i := onehot_row cs s i]) (py_range m)
                  (replicate (nat m) (Axis (replicate (length cs) (Scalar 0)))))\<rparr>)
      else Inl IndexError)"
    by (rule fill_rows_char) (auto simp add: py_range_def list_all_iff)
  have g: "fold (\<lambda>i rows. rows[i := onehot_row cs s i]) (py_range m)
             (replicate (nat m) (Axis (replicate (length cs) (Scalar 0)))) =
           map (onehot_row cs s) (py_range m)"
    by (simp add: py_range_def fold_update_upt)
  show ?thesis
    using False by (simp add: encode_string_def z f g onehot_matrix_def)
qed


lemma encode_all_char:
  "encode_all cs m strs acc =
     (if strs = [] then Inr acc
      else if bad_shape [m, int (length cs)] then Inl ValueError
      else if list_all (\<lambda>s. fits cs s (py_range m)) strs
      then Inr (acc @ map (onehot_matrix cs m) strs)
      else Inl IndexError)"
proof (induction strs arbitrary: acc)
  case Nil
  then show ?case by simp
next
  case (Cons s strs)
  show ?case
    by (simp add: encode_string_char Cons.IH)
qed

lemma np_array_matrices:
  "strs \<noteq> [] \<Longrightarrow>
   np_array (map (onehot_matrix cs m) strs) =
     Inr \<lparr>dtype = np_float64, shape = [length strs, nat m, length cs],
          elems = Axis (map (\<lambda>s. Axis (map (onehot_row cs s) (py_range m))) strs)\<rparr>"
proof -
  have p: "foldr promote (map (dtype \<circ> onehot_matrix cs m) xs) np_float64 = np_float64" for xs
    by (induction xs) (simp_all add: onehot_matrix_def promote_def)
  assume "strs \<noteq> []"
  then obtain s rest where sr: "strs = s # rest" by (cases strs) auto
  have d: "dtype (onehot_matrix cs m s) = np_float64"
    by (simp add: onehot_matrix_def)
  show ?thesis
    unfolding sr np_array_def
    by (simp add: p d list_all_iff) (simp add: onehot_matrix_def)
qed

text \<open>
  The whole function in closed form: the empty list gives the empty one-dimensional
  array; otherwise a negative length raises \<open>ValueError\<close>, an index outside the
  column raises \<open>IndexError\<close>, and the result stacks one matrix per string.
\<close>

lemma smiles_to_onehots_char:
  "smiles_to_onehots strs cs m =
     (if strs = [] then Inr \<lparr>dtype = np_float64, shape = [0], elems = Axis []\<rparr>
      else if bad_shape [m, int (length cs)] then Inl ValueError
      else if list_all (\<lambda>s. fits cs s (py_range m)) strs
      then Inr \<lparr>dtype = np_float64, shape = [length strs, nat m, length cs],
               elems = Axis (map (\<lambda>s. Axis (map (onehot_row cs s) (py_range m))) strs)\<rparr>
      else Inl IndexError)"
proof (cases "strs = []")
  case True
  then show ?thesis by (simp add: smiles_to_onehots_def np_array_def)
next
  case False
  then show ?thesis
    by (simp add: smiles_to_onehots_def encode_all_char np_array_matrices)
qed


lemma onehot_ind_cases:
  "(i < length s \<and> [s ! i] \<in> set cs \<longrightarrow>
      onehot_ind cs s i < length cs \<and> cs ! onehot_ind cs s i = [s ! i] \<and>
      (\<forall>k<onehot_ind cs s i. cs ! k \<noteq> [s ! i])) \<and>
   (i < length s \<and> [s ! i] \<notin> set cs \<longrightarrow> onehot_ind cs s i = 0) \<and>
   (length s \<le> i \<longrightarrow> onehot_ind cs s i = 1)"
proof (cases "list_index cs [s ! i]")
  case None
  then show ?thesis
    using list_index_None [of cs "[s ! i]"] by (simp add: onehot_ind_def)
next
  case (Some k)
  with list_index_None [of cs "[s ! i]"] have "[s ! i] \<in> set cs" by simp
  with Some list_index_Some [OF Some] show ?thesis
    by (simp add: onehot_ind_def)
qed

lemma nd_ravel_scalars: "concat (map nd_ravel (map (\<lambda>v. Scalar (of_int v)) xs)) = map of_int xs"
  by (induction xs) simp_all

lemma ravel_onehot_row:
  "nd_ravel (onehot_row cs s i) = (replicate (length cs) 0)[onehot_ind cs s i := 1]"
  unfolding onehot_row_def
  by (simp only: nd_ravel.simps nd_ravel_scalars) (simp add: map_update)

lemma row_of_result:
  assumes "smiles_to_onehots strs cs m = Inr t" "j < length strs" "int i < m"
  shows "np_getitem2 t j i =
           Inr \<lparr>dtype = np_float64, shape = [length cs], elems = onehot_row cs (strs ! j) i\<rparr>"
    and "onehot_ind cs (strs ! j) i < length cs"
proof -
  from assms(2) have ne: "strs \<noteq> []" by auto
  from assms(3) have im: "i < nat m" by simp
  from assms(1) ne have
    all: "list_all (\<lambda>s. fits cs s (py_range m)) strs" and
    t: "t = \<lparr>dtype = np_float64, shape = [length strs, nat m, length cs],
              elems = Axis (map (\<lambda>s. Axis (map (onehot_row cs s) (py_range m))) strs)\<rparr>"
    by (simp_all add: smiles_to_onehots_char split: if_splits)
  show "np_getitem2 t j i =
           Inr \<lparr>dtype = np_float64, shape = [length cs], elems = onehot_row cs (strs ! j) i\<rparr>"
    using assms(2) im by (simp add: t np_getitem2_def np_getitem_def py_range_def)
  from all assms(2) have "fits cs (strs ! j) (py_range m)"
    by (simp add: list_all_length)
  with im show "onehot_ind cs (strs ! j) i < length cs"
    by (simp add: fits_def py_range_def list_all_iff)
qed

text \<open>
  C2. At position \<open>i\<close> of a string \<open>s\<close> the index chosen is the first position of
  the character \<open>s[i]\<close> in the vocabulary when \<open>i\<close> is within the string and the
  character occurs in the vocabulary, 0 when \<open>i\<close> is within the string and the
  character does not occur, and 1 when \<open>i\<close> is at or beyond the string's length. In
  the array that \<open>smiles_to_onehots\<close> returns, the row of sample \<open>j\<close> at a position
  \<open>i\<close> below \<open>max_smiles_chars\<close> has its 1 at that index and 0 elsewhere.
\<close>

theorem onehot_index_policy:
  "(i < length s \<and> [s ! i] \<in> set cs \<longrightarrow>
      onehot_ind cs s i < length cs \<and> cs ! onehot_ind cs s i = [s ! i] \<and>
      (\<forall>k<onehot_ind cs s i. cs ! k \<noteq> [s ! i])) \<and>
   (i < length s \<and> [s ! i] \<notin> set cs \<longrightarrow> onehot_ind cs s i = 0) \<and>
   (length s \<le> i \<longrightarrow> onehot_ind cs s i = 1) \<and>
   (smiles_to_onehots strs cs m = Inr t \<and> j < length strs \<and> int i < m \<longrightarrow>
      onehot_ind cs (strs ! j) i < length cs \<and>
      (\<exists>row. np_getitem2 t j i = Inr row \<and>
             np_ravel row = (replicate (length cs) 0)[onehot_ind cs (strs ! j) i := 1]))"
proof -
  have "onehot_ind cs (strs ! j) i < length cs \<and>
      (\<exists>row. np_getitem2 t j i = Inr row \<and>
             np_ravel row = (replicate (length cs) 0)[onehot_ind cs (strs ! j) i := 1])"
    if h: "smiles_to_onehots strs cs m = Inr t" "j < length strs" "int i < m"
    using row_of_result [OF h] by (simp add: np_ravel_def ravel_onehot_row)
  with onehot_ind_cases [of i s cs] show ?thesis
    by blast
qed

lemma unit_vector_sum:
  "k < n \<Longrightarrow> sum_list ((replicate n (0::real))[k := 1]) = 1"
  by (simp add: upd_conv_take_nth_drop sum_list_replicate)

lemma unit_vector_count:
  "k < n \<Longrightarrow> count_list ((replicate n (0::real))[k := 1]) 1 = 1"
  by (simp add: upd_conv_take_nth_drop count_list_append)

text \<open>
  C3. For a non-empty list of strings and a non-empty vocabulary, every row (sample
  \<open>j\<close>, position \<open>i\<close>) of the array that \<open>smiles_to_onehots\<close> returns has the
  vocabulary's length, holds 1 at exactly one index and 0 at every other, and sums
  to 1 along the vocabulary axis.
\<close>

theorem onehot_rows_sum_to_one:
  assumes "strs \<noteq> []" "cs \<noteq> []" "smiles_to_onehots strs cs m = Inr t"
    "j < length strs" "int i < m"
  shows "\<exists>row. np_getitem2 t j i = Inr row \<and> shape row = [length cs] \<and>
           (\<exists>k<length cs. np_ravel row = (replicate (length cs) 0)[k := 1]) \<and>
           count_list (np_ravel row) 1 = 1 \<and>
           sum_list (np_ravel row) = 1"
proof -
  let ?k = "onehot_ind cs (strs ! j) i"
  let ?row = "\<lparr>dtype = np_float64, shape = [length cs], elems = onehot_row cs (strs ! j) i\<rparr>"
  have g: "np_getitem2 t j i = Inr ?row" and k: "?k < length cs"
    by (rule row_of_result [OF assms(3,4,5)])+
  have r: "np_ravel ?row = (replicate (length cs) 0)[?k := 1]"
    by (simp add: np_ravel_def ravel_onehot_row)
  have "shape ?row = [length cs]" by simp
  moreover have "\<exists>k<length cs. np_ravel ?row = (replicate (length cs) 0)[k := 1]"
    using k r by blast
  moreover have "count_list (np_ravel ?row) 1 = 1"
    unfolding r by (rule unit_vector_count [OF k])
  moreover have "sum_list (np_ravel ?row) = 1"
    unfolding r by (rule unit_vector_sum [OF k])
  ultimately show ?thesis
    using g by blast
qed

theorem onehot_index_policy_witness:
  "(0 < length [67, 88, 49 :: nat] \<and> [[67, 88, 49] ! 0] \<in> set [NULL_token, PAD_token, [49], [67]]) \<and>
   [NULL_token, PAD_token, [49], [67]] ! onehot_ind [NULL_token, PAD_token, [49], [67]] [67, 88, 49] 0
     = [[67, 88, 49] ! 0] \<and>
   (1 < length [67, 88, 49 :: nat] \<and> [[67, 88, 49] ! 1] \<notin> set [NULL_token, PAD_token, [49], [67]]) \<and>
   onehot_ind [NULL_token, PAD_token, [49], [67]] [67, 88, 49] 1 = 0 \<and>
   length [67, 88, 49 :: nat] \<le> 3 \<and>
   onehot_ind [NULL_token, PAD_token, [49], [67]] [67, 88, 49] 3 = 1 \<and>
   smiles_to_onehots [[67, 88, 49]] [NULL_token, PAD_token, [49], [67]] 4 =
     Inr \<lparr>dtype = np_float64, shape = [1, 4, 4],
          elems = Axis [Axis [Axis [Scalar 0, Scalar 0, Scalar 0, Scalar 1],
                              Axis [Scalar 1, Scalar 0, Scalar 0, Scalar 0],
                              Axis [Scalar 0, Scalar 0, Scalar 1, Scalar 0],
                              Axis [Scalar 0, Scalar 1, Scalar 0, Scalar 0]]]\<rparr> \<and>
   onehot_ind [NULL_token, PAD_token, [49], [67]] ([[67, 88, 49]] ! 0) 3
     < length [NULL_token, PAD_token, [49], [67]]"
proof -
  let ?cs = "[NULL_token, PAD_token, [49], [67]]"
  let ?s = "[67, 88, 49] :: pystr"
  let ?t = "\<lparr>dtype = np_float64, shape = [1, 4, 4],
          elems = Axis [Axis [Axis [Scalar 0, Scalar 0, Scalar 0, Scalar 1],
                              Axis [Scalar 1, Scalar 0, Scalar 0, Scalar 0],
                              Axis [Scalar 0, Scalar 0, Scalar 1, Scalar 0],
                              Axis [Scalar 0, Scalar 1, Scalar 0, Scalar 0]]]\<rparr>"
  have h0: "0 < length ?s \<and> [?s ! 0] \<in> set ?cs"
    by simp
  have h1: "1 < length ?s \<and> [?s ! 1] \<notin> set ?cs"
    by (simp add: NULL_token_def PAD_token_def)
  have h3: "length ?s \<le> 3"
    by simp
  have r: "smiles_to_onehots [?s] ?cs 4 = Inr ?t"
    by code_simp
  have b: "(0::nat) < length [?s]" "int 3 < 4"
    by simp_all
  from h0 h1 h3 r b
    onehot_index_policy [where i = 0 and s = ?s and cs = ?cs]
    onehot_index_policy [where i = 1 and s = ?s and cs = ?cs]
    onehot_index_policy [where i = 3 and s = ?s and cs = ?cs and strs = "[?s]" and m = 4
      and t = ?t and j = 0]
  show ?thesis
    by blast
qed

theorem onehot_rows_sum_to_one_witness:
  "[[67, 88, 49 :: nat]] \<noteq> [] \<and> [NULL_token, PAD_token, [49], [67]] \<noteq> [] \<and>
   smiles_to_onehots [[67, 88, 49]] [NULL_token, PAD_token, [49], [67]] 4 =
     Inr \<lparr>dtype = np_float64, shape = [1, 4, 4],
          elems = Axis [Axis [Axis [Scalar 0, Scalar 0, Scalar 0, Scalar 1],
                              Axis [Scalar 1, Scalar 0, Scalar 0, Scalar 0],
                              Axis [Scalar 0, Scalar 0, Scalar 1, Scalar 0],
                              Axis [Scalar 0, Scalar 1, Scalar 0, Scalar 0]]]\<rparr> \<and>
   np_getitem2 \<lparr>dtype = np_float64, shape = [1, 4, 4],
          elems = Axis [Axis [Axis [Scalar 0, Scalar 0, Scalar 0, Scalar 1],
                              Axis [Scalar 1, Scalar 0, Scalar 0, Scalar 0],
                              Axis [Scalar 0, Scalar 0, Scalar 1, Scalar 0],
                              Axis [Scalar 0, Scalar 1, Scalar 0, Scalar 0]]]\<rparr> 0 1 =
     Inr \<lparr>dtype = np_float64, shape = [4],
          elems = Axis [Scalar 1, Scalar 0, Scalar 0, Scalar 0]\<rparr> \<and>
   sum_list (np_ravel \<lparr>dtype = np_float64, shape = [4],
          elems = Axis [Scalar 1, Scalar 0, Scalar 0, Scalar 0]\<rparr>) = 1"
proof -
  let ?cs = "[NULL_token, PAD_token, [49], [67]]"
  let ?s = "[67, 88, 49] :: pystr"
  let ?t = "\<lparr>dtype = np_float64, shape = [1, 4, 4],
          elems = Axis [Axis [Axis [Scalar 0, Scalar 0, Scalar 0, Scalar 1],
                              Axis [Scalar 1, Scalar 0, Scalar 0, Scalar 0],
                              Axis [Scalar 0, Scalar 0, Scalar 1, Scalar 0],
                              Axis [Scalar 0, Scalar 1, Scalar 0, Scalar 0]]]\<rparr>"
  let ?row = "\<lparr>dtype = np_float64, shape = [4],
          elems = Axis [Scalar 1, Scalar 0, Scalar 0, Scalar 0]\<rparr>"
  have h: "[?s] \<noteq> []" "?cs \<noteq> []" "(0::nat) < length [?s]" "int 1 < 4"
    by simp_all
  have r: "smiles_to_onehots [?s] ?cs 4 = Inr ?t"
    by code_simp
  have g: "np_getitem2 ?t 0 1 = Inr ?row"
    by (simp add: np_getitem2_def np_getitem_def)
  from onehot_rows_sum_to_one [OF h(1,2) r h(3,4)] g
  have "sum_list (np_ravel ?row) = 1"
    by auto
  with h r g show ?thesis
    by blast
qed

text \<open>
  C4. The claim fails at the empty list: \<open>np.array([])\<close> is the empty one-dimensional
  array, of shape \<open>(0,)\<close>, whatever the vocabulary and the length. Here the vocabulary
  has two entries and the length is 4, and the shape is not \<open>(0, 4, 2)\<close>.
\<close>

theorem result_shape_empty_list_counterexample:
  "smiles_to_onehots [] [NULL_token, PAD_token] 4 =
     Inr \<lparr>dtype = np_float64, shape = [0], elems = Axis []\<rparr> \<and>
   shape \<lparr>dtype = np_float64, shape = [0], elems = Axis []\<rparr> \<noteq>
     [length ([] :: pystr list), nat 4, length [NULL_token, PAD_token]]"
  by (simp add: smiles_to_onehots_def np_array_def)

text \<open>
  C4, amended. For a non-empty list of strings, the array that \<open>smiles_to_onehots\<close>
  returns has shape (number of strings, \<open>max_smiles_chars\<close>, length of the vocabulary),
  whatever the lengths of the strings; for the empty list it returns an array of shape
  \<open>(0,)\<close>.
\<close>

theorem result_shape:
  "(strs \<noteq> [] \<and> smiles_to_onehots strs cs m = Inr t \<longrightarrow>
      map int (shape t) = [int (length strs), m, int (length cs)]) \<and>
   (\<exists>t0. smiles_to_onehots [] cs m = Inr t0 \<and> shape t0 = [0])"
proof -
  have "map int (shape t) = [int (length strs), m, int (length cs)]"
    if "strs \<noteq> []" "smiles_to_onehots strs cs m = Inr t"
    using that by (auto simp add: smiles_to_onehots_char split: if_splits dest: good_shape_nonneg)
  moreover have "\<exists>t0. smiles_to_onehots [] cs m = Inr t0 \<and> shape t0 = [0]"
    by (simp add: smiles_to_onehots_char)
  ultimately show ?thesis
    by blast
qed

theorem result_shape_witness:
  "[[67, 88, 49 :: nat], []] \<noteq> [] \<and>
   smiles_to_onehots [[67, 88, 49], []] [NULL_token, PAD_token, [67]] 2 =
     Inr \<lparr>dtype = np_float64, shape = [2, 2, 3],
          elems = Axis [Axis [Axis [Scalar 0, Scalar 0, Scalar 1],
                              Axis [Scalar 1, Scalar 0, Scalar 0]],
                        Axis [Axis [Scalar 0, Scalar 1, Scalar 0],
                              Axis [Scalar 0, Scalar 1, Scalar 0]]]\<rparr> \<and>
   map int (shape \<lparr>dtype = np_float64, shape = [2, 2, 3],
          elems = Axis [Axis [Axis [Scalar 0, Scalar 0, Scalar 1],
                              Axis [Scalar 1, Scalar 0, Scalar 0]],
                        Axis [Axis [Scalar 0, Scalar 1, Scalar 0],
                              Axis [Scalar 0, Scalar 1, Scalar 0]]]\<rparr>) =
     [int (length [[67, 88, 49 :: nat], []]), 2, int (length [NULL_token, PAD_token, [67]])]"
proof -
  let ?strs = "[[67, 88, 49], []] :: pystr list"
  let ?cs = "[NULL_token, PAD_token, [67]]"
  let ?t = "\<lparr>dtype = np_float64, shape = [2, 2, 3],
          elems = Axis [Axis [Axis [Scalar 0, Scalar 0, Scalar 1],
                              Axis [Scalar 1, Scalar 0, Scalar 0]],
                        Axis [Axis [Scalar 0, Scalar 1, Scalar 0],
                              Axis [Scalar 0, Scalar 1, Scalar 0]]]\<rparr>"
  have h: "?strs \<noteq> []"
    by simp
  have r: "smiles_to_onehots ?strs ?cs 2 = Inr ?t"
    by code_simp
  from h r result_shape [where strs = ?strs and cs = ?cs and m = 2 and t = ?t]
  show ?thesis
    by blast
qed


lemma bad_shape_raises:
  "strs \<noteq> [] \<Longrightarrow> bad_shape [m, int (length cs)] \<Longrightarrow>
   smiles_to_onehots strs cs m = Inl ValueError"
  by (simp add: smiles_to_onehots_char)

text \<open>
  A length of \<open>2^63\<close> does not fit a signed 64-bit integer, and a length of \<open>2^60\<close>
  with two vocabulary entries asks for \<open>2^64\<close> bytes; \<open>np.zeros\<close> refuses both.
\<close>

lemma oversized_length_raises:
  "smiles_to_onehots [[67]] [NULL_token, PAD_token] (2 ^ 63) = Inl ValueError"
  "smiles_to_onehots [[67]] [NULL_token, PAD_token] (2 ^ 60) = Inl ValueError"
  by (simp_all add: bad_shape_raises bad_shape_matrix)












text \<open>
  C8. The claim fails on the element type: \<open>np.zeros\<close> makes \<open>float64\<close> arrays and
  \<open>np.array\<close> keeps that type, so the result is not an integer array. Here one string
  \<open>'C'\<close> is encoded over \<open>['NULL', 'PAD', 'C']\<close> with length 1.
\<close>

theorem element_type_counterexample:
  "smiles_to_onehots [[67]] [NULL_token, PAD_token, [67]] 1 =
     Inr \<lparr>dtype = np_float64, shape = [1, 1, 3],
          elems = Axis [Axis [Axis [Scalar 0, Scalar 0, Scalar 1]]]\<rparr> \<and>
   \<not> is_integer_dtype (dtype \<lparr>dtype = np_float64, shape = [1, 1, 3],
          elems = Axis [Axis [Axis [Scalar 0, Scalar 0, Scalar 1]]]\<rparr>)"
proof -
  have "smiles_to_onehots [[67]] [NULL_token, PAD_token, [67]] 1 =
     Inr \<lparr>dtype = np_float64, shape = [1, 1, 3],
          elems = Axis [Axis [Axis [Scalar 0, Scalar 0, Scalar 1]]]\<rparr>"
    by code_simp
  then show ?thesis
    by (simp add: is_integer_dtype_def)
qed

lemma set_onehot_row: "set (nd_ravel (onehot_row cs s i)) \<subseteq> {0, 1}"
proof -
  have "set ((replicate (length cs) (0::real))[onehot_ind cs s i := 1]) \<subseteq>
        insert 1 (set (replicate (length cs) 0))"
    by (rule set_update_subset_insert)
  then show ?thesis
    by (auto simp add: ravel_onehot_row)
qed

text \<open>
  C8, amended. The array that \<open>smiles_to_onehots\<close> returns has element type
  \<open>float64\<close>, and every entry of it is exactly 0 or 1.
\<close>

theorem element_type_and_values:
  "smiles_to_onehots strs cs m = Inr t \<Longrightarrow>
   dtype t = np_float64 \<and> set (np_ravel t) \<subseteq> {0, 1}"
proof -
  assume r: "smiles_to_onehots strs cs m = Inr t"
  have d: "dtype t = np_float64"
    using r by (auto simp add: smiles_to_onehots_char split: if_splits)
  have e: "elems t = Axis [] \<or>
           elems t = Axis (map (\<lambda>s. Axis (map (onehot_row cs s) (py_range m))) strs)"
    using r by (auto simp add: smiles_to_onehots_char split: if_splits)
  have v: "x = 0 \<or> x = 1" if "x \<in> set (nd_ravel (onehot_row cs s i))" for x s i
    using that set_onehot_row [of cs s i] by blast
  from e have "set (np_ravel t) \<subseteq> {0, 1}"
    by (auto simp add: np_ravel_def dest: v)
  with d show ?thesis
    by simp
qed

theorem element_type_and_values_witness:
  "smiles_to_onehots [[67, 88]] [NULL_token, PAD_token, [67]] 3 =
     Inr \<lparr>dtype = np_float64, shape = [1, 3, 3],
          elems = Axis [Axis [Axis [Scalar 0, Scalar 0, Scalar 1],
                              Axis [Scalar 1, Scalar 0, Scalar 0],
                              Axis [Scalar 0, Scalar 1, Scalar 0]]]\<rparr> \<and>
   set (np_ravel \<lparr>dtype = np_float64, shape = [1, 3, 3],
          elems = Axis [Axis [Axis [Scalar 0, Scalar 0, Scalar 1],
                              Axis [Scalar 1, Scalar 0, Scalar 0],
                              Axis [Scalar 0, Scalar 1, Scalar 0]]]\<rparr>) \<subseteq> {0, 1}"
proof -
  have r: "smiles_to_onehots [[67, 88]] [NULL_token, PAD_token, [67]] 3 =
     Inr \<lparr>dtype = np_float64, shape = [1, 3, 3],
          elems = Axis [Axis [Axis [Scalar 0, Scalar 0, Scalar 1],
                              Axis [Scalar 1, Scalar 0, Scalar 0],
                              Axis [Scalar 0, Scalar 1, Scalar 0]]]\<rparr>"
    by code_simp
  from r element_type_and_values [OF r] show ?thesis
    by blast
qed

text \<open>
  C9. Samples are encoded independently: when \<open>smiles_to_onehots\<close> returns an array
  for a list of strings, it returns one for the list holding only string \<open>j\<close>, and
  slice \<open>j\<close> of the first array is slice 0 of the second.
\<close>

theorem samples_independent:
  assumes "smiles_to_onehots strs cs m = Inr t" "j < length strs"
  shows "\<exists>t1 a. smiles_to_onehots [strs ! j] cs m = Inr t1 \<and>
                np_getitem t j = Inr a \<and> np_getitem t1 0 = Inr a"
proof -
  from assms(2) have ne: "strs \<noteq> []" by auto
  from assms(1) ne have m: "\<not> bad_shape [m, int (length cs)]" and
    all: "list_all (\<lambda>s. fits cs s (py_range m)) strs" and
    t: "t = \<lparr>dtype = np_float64, shape = [length strs, nat m, length cs],
              elems = Axis (map (\<lambda>s. Axis (map (onehot_row cs s) (py_range m))) strs)\<rparr>"
    by (simp_all add: smiles_to_onehots_char split: if_splits)
  let ?a = "\<lparr>dtype = np_float64, shape = [nat m, length cs],
             elems = Axis (map (onehot_row cs (strs ! j)) (py_range m))\<rparr>"
  let ?t1 = "\<lparr>dtype = np_float64, shape = [1, nat m, length cs],
              elems = Axis [Axis (map (onehot_row cs (strs ! j)) (py_range m))]\<rparr>"
  from all assms(2) have f: "fits cs (strs ! j) (py_range m)"
    by (simp add: list_all_length)
  have 1: "smiles_to_onehots [strs ! j] cs m = Inr ?t1"
    using m f by (simp add: smiles_to_onehots_char)
  have 2: "np_getitem t j = Inr ?a"
    using assms(2) by (simp add: t np_getitem_def)
  have 3: "np_getitem ?t1 0 = Inr ?a"
    by (simp add: np_getitem_def)
  from 1 2 3 show ?thesis
    by blast
qed

theorem samples_independent_witness:
  "smiles_to_onehots [[67, 88, 49], []] [NULL_token, PAD_token, [67]] 2 =
     Inr \<lparr>dtype = np_float64, shape = [2, 2, 3],
          elems = Axis [Axis [Axis [Scalar 0, Scalar 0, Scalar 1],
                              Axis [Scalar 1, Scalar 0, Scalar 0]],
                        Axis [Axis [Scalar 0, Scalar 1, Scalar 0],
                              Axis [Scalar 0, Scalar 1, Scalar 0]]]\<rparr> \<and>
   (1::nat) < length [[67, 88, 49], [] :: pystr] \<and>
   (\<exists>t1 a. smiles_to_onehots [[[67, 88, 49], []] ! 1] [NULL_token, PAD_token, [67]] 2 = Inr t1 \<and>
      np_getitem \<lparr>dtype = np_float64, shape = [2, 2, 3],
          elems = Axis [Axis [Axis [Scalar 0, Scalar 0, Scalar 1],
                              Axis [Scalar 1, Scalar 0, Scalar 0]],
                        Axis [Axis [Scalar 0, Scalar 1, Scalar 0],
                              Axis [Scalar 0, Scalar 1, Scalar 0]]]\<rparr> 1 = Inr a \<and>
      np_getitem t1 0 = Inr a)"
proof -
  have r: "smiles_to_onehots [[67, 88, 49], []] [NULL_token, PAD_token, [67]] 2 =
     Inr \<lparr>dtype = np_float64, shape = [2, 2, 3],
          elems = Axis [Axis [Axis [Scalar 0, Scalar 0, Scalar 1],
                              Axis [Scalar 1, Scalar 0, Scalar 0]],
                        Axis [Axis [Scalar 0, Scalar 1, Scalar 0],
                              Axis [Scalar 0, Scalar 1, Scalar 0]]]\<rparr>"
    by code_simp
  have j: "(1::nat) < length [[67, 88, 49], [] :: pystr]"
    by simp
  from r j samples_independent [OF r j] show ?thesis
    by blast
qed

lemma single_char_position:
  "k < length (generate_charset corpus) \<Longrightarrow> generate_charset corpus ! k = [c] \<Longrightarrow> 2 \<le> k"
proof (rule ccontr)
  assume k: "k < length (generate_charset corpus)" and c: "generate_charset corpus ! k = [c]"
    and "\<not> 2 \<le> k"
  then have "k = 0 \<or> k = 1" by auto
  with c show False
    by (auto simp add: generate_charset_eq reserved_not_single)
qed

text \<open>
  C10. In a vocabulary of \<open>generate_charset\<close> a one-character string stands only at
  an index of 2 or more. So with such a vocabulary a position within the string whose
  character is in the vocabulary gets an index of 2 or more; index 0 is chosen exactly
  for a character that is not in the vocabulary, and index 1 exactly for a position at
  or beyond the string's length.
\<close>

theorem reserved_indices:
  "(k < length (generate_charset corpus) \<and> generate_charset corpus ! k = [c] \<longrightarrow> 2 \<le> k) \<and>
   (i < length s \<and> [s ! i] \<in> set (generate_charset corpus) \<longrightarrow>
      2 \<le> onehot_ind (generate_charset corpus) s i) \<and>
   (onehot_ind (generate_charset corpus) s i = 0 \<longleftrightarrow>
      i < length s \<and> [s ! i] \<notin> set (generate_charset corpus)) \<and>
   (onehot_ind (generate_charset corpus) s i = 1 \<longleftrightarrow> length s \<le> i)"
proof -
  let ?cs = "generate_charset corpus"
  let ?k = "onehot_ind ?cs s i"
  have found: "2 \<le> ?k" if "i < length s \<and> [s ! i] \<in> set ?cs"
  proof -
    from that onehot_ind_cases [of i s ?cs]
    have "?k < length ?cs" "?cs ! ?k = [s ! i]" by simp_all
    then show ?thesis by (rule single_char_position)
  qed
  have absent: "?k = 0" if "i < length s \<and> [s ! i] \<notin> set ?cs"
    using that onehot_ind_cases [of i s ?cs] by simp
  have pad: "?k = 1" if "length s \<le> i"
    using that onehot_ind_cases [of i s ?cs] by simp
  consider (f) "i < length s \<and> [s ! i] \<in> set ?cs" | (a) "i < length s \<and> [s ! i] \<notin> set ?cs"
    | (p) "length s \<le> i"
    by fastforce
  then have "(?k = 0 \<longleftrightarrow> i < length s \<and> [s ! i] \<notin> set ?cs) \<and> (?k = 1 \<longleftrightarrow> length s \<le> i)"
  proof cases
    case f
    with found [OF f] show ?thesis by simp
  next
    case a
    with absent [OF a] show ?thesis by simp
  next
    case p
    with pad [OF p] show ?thesis by simp
  qed
  with single_char_position [of k corpus c] found show ?thesis
    by blast
qed

theorem reserved_indices_witness:
  "(3 < length (generate_charset [[67, 67, 49]]) \<and> generate_charset [[67, 67, 49]] ! 3 = [67]) \<and>
   (0 < length [67, 88, 49 :: nat] \<and> [[67, 88, 49] ! 0] \<in> set (generate_charset [[67, 67, 49]])) \<and>
   2 \<le> onehot_ind (generate_charset [[67, 67, 49]]) [67, 88, 49] 0 \<and>
   2 \<le> (3::nat)"
proof -
  have v: "generate_charset [[67, 67, 49]] = [NULL_token, PAD_token, [49], [67]]"
    by code_simp
  have h: "3 < length (generate_charset [[67, 67, 49]]) \<and> generate_charset [[67, 67, 49]] ! 3 = [67]"
    "0 < length [67, 88, 49 :: nat] \<and> [[67, 88, 49] ! 0] \<in> set (generate_charset [[67, 67, 49]])"
    by (simp_all add: v)
  from h reserved_indices [where k = 3 and corpus = "[[67, 67, 49]]" and c = 67
      and i = 0 and s = "[67, 88, 49]"]
  show ?thesis
    by blast
qed

end
